theory Spec2Isabelle
  imports Main "HOL-Library.Sublist"
begin

section \<open>JavaScript values\<close>

text \<open>
  The payload of a cross-window message is untyped (\<open>event.data\<close> is \<open>any\<close>), so the
  handler is modelled over a datatype of the values the structured clone can deliver.
  A number is a safe integer, one of the integers that a Number holds exactly and prints
  digit for digit (the type \<open>safe_int\<close>, read with \<open>int_of\<close> and written \<open>SafeInt n\<close>
  for a safe \<open>n\<close>); fractional and larger numbers, NaN and the infinities are not
  represented. An object is the list of its own properties, read with \<open>get_prop\<close>; a
  property that is absent reads as \<open>JUndefined\<close>, as in JavaScript. A string is the
  list of its characters; the components compare strings with ASCII literals, test them
  for emptiness, search them for ASCII literals and concatenate them, and nothing else.
\<close>

definition safe_integer :: "int \<Rightarrow> bool" where
  "safe_integer n = (- 9007199254740991 \<le> n \<and> n \<le> 9007199254740991)"

typedef safe_int = "Collect safe_integer"
  morphisms int_of SafeInt
  by (rule exI [of _ 0]) (simp add: safe_integer_def)

datatype jsval =
    JUndefined
  | JNull
  | JBool bool
  | JNum safe_int
  | JStr string
  | JArr "jsval list"
  | JObj "(string \<times> jsval) list"

text \<open>ToBoolean: what \<open>if (v)\<close>, \<open>v && w\<close> and \<open>v || w\<close> test.\<close>

fun truthy :: "jsval \<Rightarrow> bool" where
  "truthy JUndefined = False"
| "truthy JNull = False"
| "truthy (JBool b) = b"
| "truthy (JNum n) = (int_of n \<noteq> 0)"
| "truthy (JStr s) = (s \<noteq> [])"
| "truthy (JArr xs) = True"
| "truthy (JObj kvs) = True"

text \<open>\<open>a || b\<close> on values: the left operand when it is truthy, the right one otherwise.\<close>

definition js_or :: "jsval \<Rightarrow> jsval \<Rightarrow> jsval" where
  "js_or a b = (if truthy a then a else b)"

definition get_prop :: "(string \<times> jsval) list \<Rightarrow> string \<Rightarrow> jsval" where
  "get_prop kvs k = (case map_of kvs k of None \<Rightarrow> JUndefined | Some v \<Rightarrow> v)"

subsection \<open>Number and value to string\<close>

definition digit_char :: "nat \<Rightarrow> char" where
  "digit_char d = ''0123456789'' ! (d mod 10)"

fun nat_to_string :: "nat \<Rightarrow> string" where
  "nat_to_string n =
     (if n < 10 then [digit_char n] else nat_to_string (n div 10) @ [digit_char (n mod 10)])"

declare nat_to_string.simps [simp del]

text \<open>
  Number to string on a safe integer: its decimal digits, after a minus sign when it is
  negative. The handler applies it to safe integers only (\<open>int_of n\<close>).
\<close>

definition number_to_string :: "int \<Rightarrow> string" where
  "number_to_string n =
     (if n < 0 then CHR ''-'' # nat_to_string (nat (- n)) else nat_to_string (nat n))"

text \<open>Reading a decimal numeral back, to state that the rendering is the right one.\<close>

definition digit_value :: "char \<Rightarrow> nat" where
  "digit_value c = of_char c - 48"

definition parse_nat :: "string \<Rightarrow> nat" where
  "parse_nat s = foldl (\<lambda>a c. 10 * a + digit_value c) 0 s"

fun join_with_comma :: "string list \<Rightarrow> string" where
  "join_with_comma [] = []"
| "join_with_comma [s] = s"
| "join_with_comma (s # t # ts) = s @ '','' @ join_with_comma (t # ts)"

text \<open>
  ToString, as a template literal \<open>`${v}`\<close> applies it. An array joins its elements with
  commas, \<open>null\<close> and \<open>undefined\<close> elements giving the empty string; a plain object gives
  \<open>[object Object]\<close>.
\<close>

fun js_to_string :: "jsval \<Rightarrow> string" where
  "js_to_string JUndefined = ''undefined''"
| "js_to_string JNull = ''null''"
| "js_to_string (JBool b) = (if b then ''true'' else ''false'')"
| "js_to_string (JNum n) = number_to_string (int_of n)"
| "js_to_string (JStr s) = s"
| "js_to_string (JArr xs) =
     join_with_comma
       (map (\<lambda>x. if x = JUndefined then [] else if x = JNull then [] else js_to_string x) xs)"
| "js_to_string (JObj kvs) = ''[object Object]''"

section \<open>VanaAppUploadWidget: the message handler\<close>

text \<open>
  The props the handler closes over. \<open>onClose\<close> records whether the optional callback
  was supplied; the three required callbacks are always there and show up as actions.
\<close>

record upload_props =
  appId :: string
  onClose :: bool
  iframeOrigin :: "string option"
  schemaId :: "safe_int option"
  prompt :: "string option"
  theme :: "(string \<times> string option) list option"

text \<open>The destructuring default \<open>iframeOrigin = "https://app.vana.com"\<close>.\<close>

definition iframe_origin :: "upload_props \<Rightarrow> string" where
  "iframe_origin p =
     (case iframeOrigin p of None \<Rightarrow> ''https://app.vana.com'' | Some s \<Rightarrow> s)"

text \<open>
  The handler's surroundings: \<open>window.location.origin\<close>, whether \<open>process.env.NODE_ENV\<close>
  is \<open>"development"\<close>, and the browser's CSS parser where \<open>assign_style_height\<close> below
  does not decide (\<open>css_other v\<close> is \<open>None\<close> when the element drops the text \<open>v\<close>
  assigned to its height, and the text it stores otherwise).
\<close>

record host_env =
  location_origin :: string
  development :: bool
  css_other :: "string \<Rightarrow> string option"

text \<open>
  The iframe element behind \<open>iframeRef.current\<close> (\<open>None\<close> for a null ref): whether its
  \<open>contentWindow\<close> is there, and the height its inline style declares (\<open>style.height\<close>,
  empty when it declares none).
\<close>

record iframe_element =
  contentWindow :: bool
  style_height :: string

text \<open>
  The assignment \<open>element.style.height = v\<close>. The element keeps an assigned text only
  when it is a valid CSS height; otherwise it drops the text and its style stays as it
  was. Two kinds of text are decided here. A decimal integer without sign or leading
  zero followed by \<open>px\<close> is a valid length and is kept as written. A minus sign before
  such an integer, other than 0, makes a negative length, which a height cannot be: it is
  dropped. Every other text is left to \<open>css_other\<close>.
\<close>

definition is_digit :: "char \<Rightarrow> bool" where
  "is_digit c = (c \<in> set ''0123456789'')"

fun canonical_digits :: "string \<Rightarrow> bool" where
  "canonical_digits [] = False"
| "canonical_digits [d] = is_digit d"
| "canonical_digits (d # ds) = (is_digit d \<and> d \<noteq> CHR ''0'' \<and> list_all is_digit ds)"

definition strip_px :: "string \<Rightarrow> string option" where
  "strip_px v =
     (if 2 \<le> length v \<and> drop (length v - 2) v = ''px''
      then Some (take (length v - 2) v) else None)"

definition negative_digits :: "string \<Rightarrow> bool" where
  "negative_digits ds =
     (case ds of
        [] \<Rightarrow> False
      | c # ds' \<Rightarrow> c = CHR ''-'' \<and> canonical_digits ds' \<and> ds' \<noteq> ''0'')"

definition assign_style_height :: "host_env \<Rightarrow> iframe_element \<Rightarrow> string \<Rightarrow> iframe_element" where
  "assign_style_height e f v =
     (let other = (case css_other e v of None \<Rightarrow> f | Some kept \<Rightarrow> f\<lparr>style_height := kept\<rparr>)
      in case strip_px v of
           None \<Rightarrow> other
         | Some ds \<Rightarrow>
             if canonical_digits ds then f\<lparr>style_height := v\<rparr>
             else if negative_digits ds then f
             else other)"

record message_event =
  origin :: string
  data :: jsval

text \<open>Everything the handler does to the outside, in the order it does it.\<close>

datatype action =
    PostMessage jsval string
  | OnAuth jsval
  | OnResult jsval
  | OnError jsval
  | OnClose
  | ConsoleWarn string jsval

datatype js_error = TypeError

definition opt_num :: "safe_int option \<Rightarrow> jsval" where
  "opt_num v = (case v of None \<Rightarrow> JUndefined | Some n \<Rightarrow> JNum n)"

definition opt_str :: "string option \<Rightarrow> jsval" where
  "opt_str v = (case v of None \<Rightarrow> JUndefined | Some s \<Rightarrow> JStr s)"

definition theme_value :: "(string \<times> string option) list option \<Rightarrow> jsval" where
  "theme_value t =
     (case t of None \<Rightarrow> JUndefined
      | Some kvs \<Rightarrow> JObj (map (\<lambda>(k, v). (k, opt_str v)) kvs))"

text \<open>The object literal posted on \<open>ready\<close>.\<close>

definition config_message :: "upload_props \<Rightarrow> host_env \<Rightarrow> jsval" where
  "config_message p e =
     JObj [(''type'', JStr ''config''),
           (''appId'', JStr (appId p)),
           (''schemaId'', opt_num (schemaId p)),
           (''aiPrompt'', opt_str (prompt p)),
           (''embeddingOrigin'', JStr (location_origin e)),
           (''theme'', theme_value (theme p))]"

text \<open>\<open>iframeRef.current?.contentWindow\<close> as a condition.\<close>

definition has_content_window :: "iframe_element option \<Rightarrow> bool" where
  "has_content_window r = (case r of None \<Rightarrow> False | Some f \<Rightarrow> contentWindow f)"

fun indexed :: "nat \<Rightarrow> jsval list \<Rightarrow> (string \<times> jsval) list" where
  "indexed i [] = []"
| "indexed i (x # xs) = (nat_to_string i, x) # indexed (Suc i) xs"

text \<open>
  \<open>const { type, ...data } = event.data\<close>. Destructuring \<open>null\<close> or \<open>undefined\<close> throws
  a TypeError. An object gives its \<open>type\<close> property and a copy of its other own
  properties; an array or a string has no \<open>type\<close> and spreads its indexed elements;
  a number or a boolean has no properties at all.
\<close>

fun destructure :: "jsval \<Rightarrow> (jsval \<times> (string \<times> jsval) list) option" where
  "destructure JUndefined = None"
| "destructure JNull = None"
| "destructure (JObj kvs) =
     Some (get_prop kvs ''type'', filter (\<lambda>kv. fst kv \<noteq> ''type'') kvs)"
| "destructure (JArr xs) = Some (JUndefined, indexed 0 xs)"
| "destructure (JStr s) = Some (JUndefined, indexed 0 (map (\<lambda>c. JStr [c]) s))"
| "destructure (JBool b) = Some (JUndefined, [])"
| "destructure (JNum n) = Some (JUndefined, [])"

text \<open>
  The body of the \<open>switch (type)\<close>, which compares with strict equality, so a case is
  taken only by the string itself. It returns the actions and the iframe ref after them.
\<close>

definition dispatch_type ::
  "upload_props \<Rightarrow> host_env \<Rightarrow> iframe_element option \<Rightarrow> jsval \<Rightarrow> (string \<times> jsval) list
     \<Rightarrow> action list \<times> iframe_element option" where
  "dispatch_type p e r ty d =
     (if ty = JStr ''ready'' then
        (if has_content_window r
         then ([PostMessage (config_message p e) (iframe_origin p)], r)
         else ([], r))
      else if ty = JStr ''relay'' then
        (if has_content_window r \<and> truthy (get_prop d ''data'')
         then ([PostMessage (get_prop d ''data'') (iframe_origin p)], r)
         else ([], r))
      else if ty = JStr ''auth'' then
        (if truthy (get_prop d ''walletAddress'')
         then ([OnAuth (get_prop d ''walletAddress'')], r)
         else ([], r))
      else if ty = JStr ''complete'' then
        (if truthy (get_prop d ''result'')
         then ([OnResult (get_prop d ''result'')], r)
         else ([], r))
      else if ty = JStr ''error'' then
        ([OnError (js_or (js_or (get_prop d ''message'') (get_prop d ''error''))
                    (JStr ''An error occurred''))], r)
      else if ty = JStr ''resize'' then
        (case r of
           None \<Rightarrow> ([], r)
         | Some f \<Rightarrow>
             if truthy (get_prop d ''height'')
             then ([], Some (assign_style_height e f
                               (js_to_string (get_prop d ''height'') @ ''px'')))
             else ([], r))
      else if ty = JStr ''close'' then
        (if onClose p then ([OnClose], r) else ([], r))
      else
        (if development e
         then ([ConsoleWarn (''[VanaAppUploadWidget] Unknown message type: '' @ js_to_string ty)
                  (JObj d)], r)
         else ([], r)))"

text \<open>
  \<open>handleMessage\<close>: the origin check comes first and returns before the payload is
  touched.
\<close>

definition handleMessage ::
  "upload_props \<Rightarrow> host_env \<Rightarrow> iframe_element option \<Rightarrow> message_event
     \<Rightarrow> js_error + action list \<times> iframe_element option" where
  "handleMessage p e r ev =
     (if origin ev \<noteq> iframe_origin p then Inr ([], r)
      else case destructure (data ev) of
             None \<Rightarrow> Inl TypeError
           | Some (ty, d) \<Rightarrow> Inr (dispatch_type p e r ty d))"

text \<open>
  The listener stays registered between messages (\<open>addEventListener\<close> in the effect), so
  a sequence of events is delivered one at a time, each to the iframe ref the previous
  one left. An exception thrown by the listener is reported by the browser and ends that
  one call only; the next event is delivered as usual.
\<close>

fun deliver ::
  "upload_props \<Rightarrow> host_env \<Rightarrow> iframe_element option \<Rightarrow> message_event list
     \<Rightarrow> action list \<times> iframe_element option" where
  "deliver p e r [] = ([], r)"
| "deliver p e r (ev # evs) =
     (case handleMessage p e r ev of
        Inl err \<Rightarrow> deliver p e r evs
      | Inr (acts, r') \<Rightarrow> (acts @ fst (deliver p e r' evs), snd (deliver p e r' evs)))"

text \<open>The actions one call of the handler performs (none when it throws).\<close>

definition actions_of ::
  "upload_props \<Rightarrow> host_env \<Rightarrow> iframe_element option \<Rightarrow> message_event \<Rightarrow> action list" where
  "actions_of p e r ev = (case handleMessage p e r ev of Inl err \<Rightarrow> [] | Inr res \<Rightarrow> fst res)"

fun is_OnResult :: "action \<Rightarrow> bool" where
  "is_OnResult (OnResult v) = True"
| "is_OnResult a = False"

fun is_OnError :: "action \<Rightarrow> bool" where
  "is_OnError (OnError v) = True"
| "is_OnError a = False"

text \<open>A message from the configured origin that is an object tagged \<open>t\<close>.\<close>

definition tagged :: "upload_props \<Rightarrow> string \<Rightarrow> message_event \<Rightarrow> bool" where
  "tagged p t ev =
     (origin ev = iframe_origin p \<and>
      (case data ev of JObj kvs \<Rightarrow> get_prop kvs ''type'' = JStr t | _ \<Rightarrow> False))"

text \<open>A field of an object message (\<open>JUndefined\<close> when it is not there).\<close>

definition field :: "message_event \<Rightarrow> string \<Rightarrow> jsval" where
  "field ev k = (case data ev of JObj kvs \<Rightarrow> get_prop kvs k | _ \<Rightarrow> JUndefined)"

text \<open>Fixtures of the component's test file.\<close>

abbreviation mockProps :: upload_props where
  "mockProps \<equiv> \<lparr>appId = ''test-app-123'', onClose = False, iframeOrigin = None,
                 schemaId = None, prompt = None, theme = None\<rparr>"

abbreviation testEnv :: host_env where
  "testEnv \<equiv> \<lparr>location_origin = ''http://localhost:3000'', development = False,
               css_other = (\<lambda>v. None)\<rparr>"

abbreviation mountedIframe :: "iframe_element option" where
  "mountedIframe \<equiv> Some \<lparr>contentWindow = True, style_height = []\<rparr>"

abbreviation fromIframe :: "(string \<times> jsval) list \<Rightarrow> message_event" where
  "fromIframe kvs \<equiv> \<lparr>origin = ''https://app.vana.com'', data = JObj kvs\<rparr>"

text \<open>
  What of the iframe ref the handler can tell apart: whether there is an element and
  whether it has a content window. The height style is assigned, never read.
\<close>

definition mount :: "iframe_element option \<Rightarrow> bool option" where
  "mount r = map_option contentWindow r"

section \<open>VanaAppSocialShareWidget: share text and click handlers\<close>

text \<open>
  The repository holds two versions of the component. The earlier one decorates the
  content (intro, emoji, note, call to action, hashtag) and opens the platform after a
  countdown; the later one appends a suffix and shows instructions. Both are modelled,
  the first with the suffix \<open>_decorated\<close> on the names the two share.
\<close>

datatype SocialPlatform = twitter | facebook | linkedin | instagram

definition platform_tag :: "SocialPlatform \<Rightarrow> string" where
  "platform_tag pf =
     (case pf of twitter \<Rightarrow> ''twitter'' | facebook \<Rightarrow> ''facebook''
      | linkedin \<Rightarrow> ''linkedin'' | instagram \<Rightarrow> ''instagram'')"

text \<open>
  \<open>toUpperCase\<close> and \<open>toLowerCase\<close>, on the ASCII letters: the components apply them to
  platform tags only.
\<close>

definition to_upper_char :: "char \<Rightarrow> char" where
  "to_upper_char c =
     (case map_of (zip ''abcdefghijklmnopqrstuvwxyz'' ''ABCDEFGHIJKLMNOPQRSTUVWXYZ'') c of
        None \<Rightarrow> c | Some u \<Rightarrow> u)"

definition to_lower_char :: "char \<Rightarrow> char" where
  "to_lower_char c =
     (case map_of (zip ''ABCDEFGHIJKLMNOPQRSTUVWXYZ'' ''abcdefghijklmnopqrstuvwxyz'') c of
        None \<Rightarrow> c | Some l \<Rightarrow> l)"

definition toLowerCase :: "string \<Rightarrow> string" where
  "toLowerCase s = map to_lower_char s"

text \<open>\<open>s.charAt(0).toUpperCase() + s.slice(1)\<close>\<close>

definition capitalize :: "string \<Rightarrow> string" where
  "capitalize s = map to_upper_char (take 1 s) @ drop 1 s"

text \<open>
  \<open>String.prototype.indexOf\<close> from position 0, and \<open>String.prototype.replace\<close> with a
  string pattern: the first occurrence only, the text before it, the replacement, the
  text after it. The replacement is taken literally, which is what JavaScript does when
  it holds no \<open>$\<close>, as at the one call site.
\<close>

fun indexOf :: "string \<Rightarrow> string \<Rightarrow> nat option" where
  "indexOf [] pat = (if pat = [] then Some 0 else None)"
| "indexOf (c # cs) pat =
     (if prefix pat (c # cs) then Some 0 else map_option Suc (indexOf cs pat))"

definition js_replace :: "string \<Rightarrow> string \<Rightarrow> string \<Rightarrow> string" where
  "js_replace s pat rep =
     (case indexOf s pat of
        None \<Rightarrow> s
      | Some i \<Rightarrow> take i s @ rep @ drop (i + length pat) s)"

text \<open>Props the two versions share, then each version's own.\<close>

record share_props =
  shareContent :: string
  onShare :: bool
  onCopySuccess :: bool

record decorated_props = share_props +
  appName :: string
  shareEmoji :: "string option"
  funnyNote :: "string option"
  callToAction :: "string option"
  hashtag :: "string option"

record suffix_props = share_props +
  suffix :: "string option"
  hideToast :: "bool option"
  toastDuration :: "int option"

text \<open>A destructuring default: used when the prop is omitted (\<open>undefined\<close>).\<close>

definition with_default :: "'a option \<Rightarrow> 'a \<Rightarrow> 'a" where
  "with_default v d = (case v of None \<Rightarrow> d | Some x \<Rightarrow> x)"

subsection \<open>Decorated version\<close>

definition generateShareText_decorated :: "decorated_props \<Rightarrow> SocialPlatform \<Rightarrow> string" where
  "generateShareText_decorated p platform =
     (let shareEmoji' = with_default (shareEmoji p) [];
          funnyNote' = with_default (funnyNote p) [];
          callToAction' = with_default (callToAction p) ''Try @ app.vana.com'';
          hashtag' = with_default (hashtag p) ''#DATAREVOLUTION'';
          emoji = (if shareEmoji' \<noteq> [] then shareEmoji' @ '' '' else []);
          intro = ''Tried Vana's '' @ appName p @ '', look what I got:\<newline>\<newline>'';
          content = emoji @ shareContent p;
          note = (if funnyNote' \<noteq> [] then ''\<newline>\<newline>'' @ funnyNote' else []);
          cta = ''\<newline>\<newline>'' @ callToAction';
          tag = ''\<newline>'' @ hashtag';
          needsFullUrl = (platform = instagram \<or> platform = facebook);
          ctaWithUrl = (if needsFullUrl
                        then js_replace cta ''app.vana.com'' ''https://app.vana.com''
                        else cta)
      in intro @ content @ note @ ctaWithUrl @ tag)"

text \<open>
  The \<open>getUrl\<close> column of \<open>SHARE_BUTTONS\<close>. The built-in \<open>encodeURIComponent\<close> is the
  parameter \<open>enc\<close>, and \<open>window.location.origin\<close> the parameter \<open>here\<close>.
\<close>

definition getUrl :: "(string \<Rightarrow> string) \<Rightarrow> string \<Rightarrow> SocialPlatform \<Rightarrow> string \<Rightarrow> string" where
  "getUrl enc here pf text =
     (case pf of
        twitter \<Rightarrow> ''https://twitter.com/intent/tweet?text='' @ enc text
      | facebook \<Rightarrow>
          ''https://www.facebook.com/sharer/sharer.php?u='' @ enc here @ ''&quote='' @ enc text
      | linkedin \<Rightarrow> ''https://www.linkedin.com/feed/?shareActive=true&text='' @ enc text
      | instagram \<Rightarrow> ''https://www.instagram.com/'')"

datatype toast_duration = Infinity | Millis int

record toast =
  title :: string
  description :: string
  progress :: "int option"
  duration :: toast_duration

text \<open>
  The component's own state: the toast shown (\<open>internalToast.message\<close>) and the timer
  handle kept in \<open>toastTimerRef.current\<close>.
\<close>

record share_state =
  internalToast :: "toast option"
  toastTimerRef :: "nat option"

text \<open>
  What a click does to the outside, in order. \<open>navigator.clipboard\<close> is taken to exist.
  \<open>SetInterval\<close> and \<open>SetTimeout\<close> carry the handle the browser returns and the delay;
  the callbacks they register run later, from the timer, and are not part of the click:
  the interval's callback refreshes the toast and in the end opens the platform URL, the
  timeout's callback clears the toast, and neither writes to the clipboard.
\<close>

datatype share_action =
    WriteText string
  | OnShare string
  | OnCopySuccess string string "int option"
  | SetInterval nat int
  | ClearInterval nat
  | SetTimeout nat int
  | ClearTimeout nat

text \<open>\<open>if (toastTimerRef.current)\<close>: a handle that is set and not 0.\<close>

definition pending_timer :: "share_state \<Rightarrow> nat option" where
  "pending_timer st =
     (case toastTimerRef st of None \<Rightarrow> None | Some t \<Rightarrow> if t = 0 then None else Some t)"

definition copyAndOpenWithCountdown ::
  "decorated_props \<Rightarrow> share_state \<Rightarrow> nat \<Rightarrow> string \<Rightarrow> string \<Rightarrow> string
     \<Rightarrow> share_action list \<times> share_state" where
  "copyAndOpenWithCountdown p st timer text platform url =
     ([WriteText text]
        @ (if onShare p then [OnShare (toLowerCase platform)] else [])
        @ (if onCopySuccess p then [OnCopySuccess (toLowerCase platform) text (Some 3000)] else [])
        @ [SetInterval timer 100]
        @ (case pending_timer st of None \<Rightarrow> [] | Some old \<Rightarrow> [ClearInterval old]),
      st\<lparr>internalToast :=
           Some \<lparr>title = ''Copied to clipboard!'',
                 description = ''Opening '' @ platform @ '' in 3... Paste your message there.'',
                 progress = Some 100,
                 duration = Infinity\<rparr>,
         toastTimerRef := Some timer\<rparr>)"

text \<open>
  The \<open>handleClick\<close> of one button of \<open>SHARE_BUTTONS.map\<close>; \<open>timer\<close> is the handle that
  \<open>setInterval\<close> returns.
\<close>

definition handleClick_decorated ::
  "(string \<Rightarrow> string) \<Rightarrow> string \<Rightarrow> decorated_props \<Rightarrow> share_state \<Rightarrow> nat \<Rightarrow> SocialPlatform
     \<Rightarrow> share_action list \<times> share_state" where
  "handleClick_decorated enc here p st timer pf =
     (let text = generateShareText_decorated p pf;
          url = getUrl enc here pf text
      in copyAndOpenWithCountdown p st timer text (capitalize (platform_tag pf)) url)"

subsection \<open>Suffix version\<close>

definition generateShareText :: "suffix_props \<Rightarrow> string" where
  "generateShareText p =
     shareContent p
       @ with_default (suffix p) ''\<newline>\<newline>Try @ app.vana.com\<newline>#datarevolution''"

definition copyAndShowInstructions ::
  "suffix_props \<Rightarrow> share_state \<Rightarrow> nat \<Rightarrow> string \<Rightarrow> string \<Rightarrow> share_action list \<times> share_state" where
  "copyAndShowInstructions p st timer text platform =
     (let hideToast' = with_default (hideToast p) False;
          toastDuration' = with_default (toastDuration p) 4000
      in
      ([WriteText text]
         @ (if onShare p then [OnShare (toLowerCase platform)] else [])
         @ (if onCopySuccess p then [OnCopySuccess (toLowerCase platform) text None] else [])
         @ (if hideToast' then []
            else (case pending_timer st of None \<Rightarrow> [] | Some old \<Rightarrow> [ClearTimeout old])
                   @ [SetTimeout timer toastDuration']),
       if hideToast' then st
       else st\<lparr>internalToast :=
                 Some \<lparr>title = ''Copied to clipboard!'',
                       description =
                         ''Now go to '' @ platform @ '' and paste your message to share.'',
                       progress = None,
                       duration = Millis toastDuration'\<rparr>,
               toastTimerRef := Some timer\<rparr>))"

definition handleClick ::
  "suffix_props \<Rightarrow> share_state \<Rightarrow> nat \<Rightarrow> SocialPlatform \<Rightarrow> share_action list \<times> share_state" where
  "handleClick p st timer pf =
     (let text = generateShareText p
      in copyAndShowInstructions p st timer text (capitalize (platform_tag pf)))"

fun written :: "share_action list \<Rightarrow> string list" where
  "written [] = []"
| "written (WriteText t # as) = t # written as"
| "written (a # as) = written as"

text \<open>Whether a text contains \<open>undefined\<close> or \<open>null\<close> as a substring.\<close>

definition leaks :: "string \<Rightarrow> bool" where
  "leaks s = (sublist ''undefined'' s \<or> sublist ''null'' s)"

text \<open>A prop the caller supplied holds neither word; an omitted one has nothing to hold.\<close>

definition supplied_clean :: "string option \<Rightarrow> bool" where
  "supplied_clean v = (case v of None \<Rightarrow> True | Some s \<Rightarrow> \<not> leaks s)"

text \<open>Fixtures of the share widget's tests and documentation.\<close>

abbreviation minimalProps :: suffix_props where
  "minimalProps \<equiv> \<lparr>shareContent = ''Test content'', onShare = False, onCopySuccess = False,
                   suffix = None, hideToast = None, toastDuration = None\<rparr>"

abbreviation idle :: share_state where
  "idle \<equiv> \<lparr>internalToast = None, toastTimerRef = None\<rparr>"

abbreviation sampleProps :: decorated_props where
  "sampleProps \<equiv> \<lparr>shareContent = ''ChocoVision Leader (Dark Chocolate)'', onShare = False,
                  onCopySuccess = False, appName = ''Ice Cream Flavor'', shareEmoji = None,
                  funnyNote = None, callToAction = None, hashtag = None\<rparr>"

section \<open>Helper lemmas\<close>

subsection \<open>Decimal rendering\<close>

lemma int_of_SafeInt: "safe_integer n \<Longrightarrow> int_of (SafeInt n) = n"
  by (simp add: SafeInt_inverse)

lemma digit_value_digit_char: "digit_value (digit_char d) = d mod 10"
proof -
  have "d mod 10 < 10" by simp
  then have "d mod 10 = 0 \<or> d mod 10 = 1 \<or> d mod 10 = 2 \<or> d mod 10 = 3 \<or> d mod 10 = 4
     \<or> d mod 10 = 5 \<or> d mod 10 = 6 \<or> d mod 10 = 7 \<or> d mod 10 = 8 \<or> d mod 10 = 9"
    by arith
  then show ?thesis
    by (auto simp: digit_char_def digit_value_def)
qed

lemma parse_nat_snoc: "parse_nat (s @ [c]) = 10 * parse_nat s + digit_value c"
  by (simp add: parse_nat_def)

lemma parse_nat_to_string: "parse_nat (nat_to_string n) = n"
proof (induction n rule: nat_to_string.induct)
  case (1 n)
  show ?case
  proof (cases "n < 10")
    case True
    then show ?thesis
      by (subst nat_to_string.simps) (simp add: parse_nat_def digit_value_digit_char)
  next
    case False
    then show ?thesis
      using 1 by (subst nat_to_string.simps) (simp add: parse_nat_snoc digit_value_digit_char)
  qed
qed









subsection \<open>Assigning the height\<close>





lemma assign_keeps_contentWindow:
  "contentWindow (assign_style_height e f v) = contentWindow f"
  by (simp add: assign_style_height_def Let_def split: option.splits)

subsection \<open>Message handler\<close>

lemma get_prop_rest:
  "k \<noteq> ''type'' \<Longrightarrow> get_prop (filter (\<lambda>kv. fst kv \<noteq> ''type'') kvs) k = get_prop kvs k"
  by (induction kvs) (auto simp: get_prop_def)

lemma handle_tagged:
  "tagged p t ev \<Longrightarrow>
     handleMessage p e r ev =
       Inr (dispatch_type p e r (JStr t)
              (case data ev of JObj kvs \<Rightarrow> filter (\<lambda>kv. fst kv \<noteq> ''type'') kvs | _ \<Rightarrow> []))"
  by (cases "data ev") (auto simp: handleMessage_def tagged_def)

lemma rest_field:
  "k \<noteq> ''type'' \<Longrightarrow>
     get_prop (case data ev of JObj kvs \<Rightarrow> filter (\<lambda>kv. fst kv \<noteq> ''type'') kvs | _ \<Rightarrow> []) k
       = field ev k"
  by (cases "data ev") (auto simp: field_def get_prop_rest, auto simp: get_prop_def)

lemma dispatch_type_mount:
  "mount (snd (dispatch_type p e r ty d)) = mount r"
  by (cases r) (simp_all add: dispatch_type_def mount_def assign_keeps_contentWindow)

lemma dispatch_type_actions:
  "mount r1 = mount r2 \<Longrightarrow> fst (dispatch_type p e r1 ty d) = fst (dispatch_type p e r2 ty d)"
  by (cases r1; cases r2) (simp_all add: dispatch_type_def mount_def has_content_window_def)

lemma handleMessage_mount:
  assumes hm: "handleMessage p e r ev = Inr (acts, r')"
  shows "mount r' = mount r"
proof (cases "origin ev \<noteq> iframe_origin p")
  case True
  then show ?thesis using hm by (simp add: handleMessage_def)
next
  case False
  then obtain ty d where "dispatch_type p e r ty d = (acts, r')"
    using hm by (auto simp: handleMessage_def split: option.splits)
  then have "snd (dispatch_type p e r ty d) = r'" by simp
  then show ?thesis using dispatch_type_mount [of p e r ty d] by simp
qed

lemma handleMessage_throws_alike:
  "handleMessage p e r1 ev = Inl err \<Longrightarrow> handleMessage p e r2 ev = Inl err"
  by (auto simp: handleMessage_def split: if_splits option.splits)

lemma actions_of_mount:
  "mount r1 = mount r2 \<Longrightarrow> actions_of p e r1 ev = actions_of p e r2 ev"
proof -
  assume m: "mount r1 = mount r2"
  show ?thesis
  proof (cases "destructure (data ev)")
    case None
    then show ?thesis by (simp add: actions_of_def handleMessage_def)
  next
    case (Some td)
    obtain ty d where td: "td = (ty, d)" by (cases td)
    show ?thesis
      using Some td dispatch_type_actions [OF m, of p e ty d]
      by (simp add: actions_of_def handleMessage_def)
  qed
qed

lemma deliver_actions:
  "mount r = mount r0 \<Longrightarrow> fst (deliver p e r evs) = concat (map (actions_of p e r0) evs)"
proof (induction evs arbitrary: r)
  case Nil
  show ?case by simp
next
  case (Cons ev evs)
  show ?case
  proof (cases "handleMessage p e r ev")
    case (Inl err)
    then have "actions_of p e r0 ev = []"
      using handleMessage_throws_alike [OF Inl, of r0] by (simp add: actions_of_def)
    with Inl Cons show ?thesis by simp
  next
    case (Inr res)
    obtain acts r' where res: "res = (acts, r')" by (cases res)
    have m: "mount r' = mount r0"
      using handleMessage_mount Inr res Cons.prems by metis
    have a: "actions_of p e r0 ev = acts"
      using actions_of_mount [OF Cons.prems, of p e ev] Inr res by (simp add: actions_of_def)
    show ?thesis
      using Inr res a Cons.IH [OF m] by simp
  qed
qed

lemma results_of_one:
  "filter is_OnResult (actions_of p e r ev) =
     (if tagged p ''complete'' ev \<and> truthy (field ev ''result'')
      then [OnResult (field ev ''result'')] else [])"
proof (cases "data ev")
  case (JObj kvs)
  then show ?thesis
    by (cases r)
       (auto simp: actions_of_def handleMessage_def dispatch_type_def tagged_def field_def
          get_prop_rest)
qed (auto simp: actions_of_def handleMessage_def dispatch_type_def tagged_def field_def)

lemma errors_of_one:
  "filter is_OnError (actions_of p e r ev) =
     (if tagged p ''error'' ev
      then [OnError (js_or (js_or (field ev ''message'') (field ev ''error''))
                      (JStr ''An error occurred''))] else [])"
proof (cases "data ev")
  case (JObj kvs)
  then show ?thesis
    by (cases r)
       (auto simp: actions_of_def handleMessage_def dispatch_type_def tagged_def field_def
          get_prop_rest)
qed (auto simp: actions_of_def handleMessage_def dispatch_type_def tagged_def field_def)

subsection \<open>Share text\<close>

lemma written_append: "written (xs @ ys) = written xs @ written ys"
  by (induction xs rule: written.induct) simp_all

lemma written_copyAndShowInstructions:
  "written (fst (copyAndShowInstructions p st timer text platform)) = [text]"
  by (simp add: copyAndShowInstructions_def Let_def written_append split: option.splits)

lemma written_copyAndOpenWithCountdown:
  "written (fst (copyAndOpenWithCountdown p st timer text platform url)) = [text]"
  by (simp add: copyAndOpenWithCountdown_def written_append split: option.splits)

lemma js_replace_inserts:
  "pat \<noteq> [] \<Longrightarrow>
   js_replace s pat (ins @ pat) =
     (case indexOf s pat of None \<Rightarrow> s | Some i \<Rightarrow> take i s @ ins @ drop i s)"
proof (induction s)
  case Nil
  then show ?case by (simp add: js_replace_def)
next
  case (Cons c cs)
  show ?case
  proof (cases "prefix pat (c # cs)")
    case True
    then obtain rest where r: "c # cs = pat @ rest" by (auto simp: prefix_def)
    have i: "indexOf (c # cs) pat = Some 0" using True by simp
    have d: "pat @ drop (length pat) (c # cs) = c # cs" by (simp add: r)
    have "js_replace (c # cs) pat (ins @ pat) = ins @ pat @ drop (length pat) (c # cs)"
      unfolding js_replace_def i by simp
    also have "\<dots> = ins @ c # cs" by (simp only: d)
    finally show ?thesis unfolding i by simp
  next
    case False
    then show ?thesis using Cons
      by (cases "indexOf cs pat") (simp_all add: js_replace_def)
  qed
qed

lemma js_replace_scheme:
  "js_replace s ''app.vana.com'' ''https://app.vana.com'' =
     (case indexOf s ''app.vana.com'' of None \<Rightarrow> s | Some i \<Rightarrow> take i s @ ''https://'' @ drop i s)"
  using js_replace_inserts [of "''app.vana.com''" s "''https://''"] by simp

lemma js_replace_after_newlines:
  "js_replace (''\<newline>\<newline>'' @ c) ''app.vana.com'' ''https://app.vana.com''
     = ''\<newline>\<newline>'' @ js_replace c ''app.vana.com'' ''https://app.vana.com''"
  by (cases "indexOf c ''app.vana.com''") (simp_all add: js_replace_def)

lemma sublist_sep:
  assumes "c \<notin> set w"
  shows "sublist w (xs @ c # ys) \<longleftrightarrow> sublist w xs \<or> sublist w ys"
proof
  assume "sublist w (xs @ c # ys)"
  then consider "sublist w xs" | "sublist w (c # ys)"
    | w1 w2 where "w = w1 @ w2" "Sublist.suffix w1 xs" "prefix w2 (c # ys)"
    by (auto simp: sublist_append)
  then show "sublist w xs \<or> sublist w ys"
  proof cases
    case 1
    then show ?thesis by simp
  next
    case 2
    then have "prefix w (c # ys) \<or> sublist w ys" by (simp add: sublist_Cons_right)
    moreover have "prefix w (c # ys) \<Longrightarrow> w = []"
      using assms by (cases w) auto
    ultimately show ?thesis by auto
  next
    case 3
    have "w2 = []" using 3(1,3) assms by (cases w2) auto
    then have "Sublist.suffix w xs" using 3 by simp
    then show ?thesis by auto
  qed
next
  assume "sublist w xs \<or> sublist w ys"
  then show "sublist w (xs @ c # ys)"
  proof
    assume "sublist w xs"
    then show ?thesis by (simp add: sublist_append)
  next
    assume "sublist w ys"
    then have "sublist w (c # ys)" by (simp add: sublist_Cons_right)
    then show ?thesis by (simp add: sublist_append)
  qed
qed

lemma leaks_sep:
  "c \<notin> set ''undefinedl'' \<Longrightarrow> leaks (xs @ c # ys) \<longleftrightarrow> leaks xs \<or> leaks ys"
  unfolding leaks_def
  by (subst sublist_sep, simp, subst sublist_sep, simp, blast)

lemma leaks_sep_Cons:
  "c \<notin> set ''undefinedl'' \<Longrightarrow> leaks (c # ys) \<longleftrightarrow> leaks ys"
  using leaks_sep [of c "[]" ys] by (simp add: leaks_def)

lemma leaks_Nil: "\<not> leaks []"
  by (simp add: leaks_def)

lemma leaks_mono: "sublist a b \<Longrightarrow> leaks a \<Longrightarrow> leaks b"
proof -
  have "sublist w a \<Longrightarrow> sublist a b \<Longrightarrow> sublist w b" for w :: string
  proof -
    assume "sublist w a" "sublist a b"
    then obtain p1 s1 p2 s2 where "a = p1 @ w @ s1" "b = p2 @ a @ s2"
      by (auto simp: sublist_def)
    then have "b = (p2 @ p1) @ w @ (s1 @ s2)" by simp
    then show ?thesis unfolding sublist_def by blast
  qed
  then show "sublist a b \<Longrightarrow> leaks a \<Longrightarrow> leaks b"
    unfolding leaks_def by blast
qed

lemma js_replace_clean:
  assumes "\<not> leaks s"
  shows "\<not> leaks (js_replace s ''app.vana.com'' ''https://app.vana.com'')"
proof (cases "indexOf s ''app.vana.com''")
  case None
  then show ?thesis using assms by (simp add: js_replace_scheme)
next
  case (Some i)
  have t: "\<not> leaks (take i s)" using assms leaks_mono [of "take i s" s] by auto
  have d: "\<not> leaks (drop i s)" using assms leaks_mono [of "drop i s" s] by auto
  have "leaks (take i s @ CHR ''h'' # ''ttps://'' @ drop i s)
          = (leaks (take i s) \<or> leaks (''ttps://'' @ drop i s))"
    by (rule leaks_sep) simp
  moreover have "leaks (''ttps://'' @ drop i s) = leaks (drop i s)"
    by (simp add: leaks_sep_Cons)
  ultimately show ?thesis using t d Some by (simp add: js_replace_scheme)
qed

lemma intro_clean:
  "leaks (''Tried Vana's '' @ a @ '', look what I got:\<newline>\<newline>'' @ rest) = (leaks a \<or> leaks rest)"
proof -
  have 1: "leaks (''Tried Vana's '' @ a @ '', look what I got:\<newline>\<newline>'' @ rest)
           = leaks ((''Tried Vana's'' @ '' '' @ a) @ CHR '','' # '' look what I got:\<newline>\<newline>'' @ rest)"
    by simp
  have 2: "leaks (''Tried Vana's'' @ '' '' @ a) = leaks a"
    using leaks_sep [of "CHR '' ''" "''Tried Vana's''" a]
    by (simp add: leaks_def sublist_code)
  have 3: "leaks ('' look what I got:\<newline>\<newline>'' @ rest) = leaks rest"
    using leaks_sep [of "CHR ''\<newline>''" "'' look what I got:\<newline>''" rest]
    by (simp add: leaks_def sublist_code)
  have 4: "leaks ((''Tried Vana's'' @ '' '' @ a) @ CHR '','' # '' look what I got:\<newline>\<newline>'' @ rest)
           = (leaks (''Tried Vana's'' @ '' '' @ a) \<or> leaks ('' look what I got:\<newline>\<newline>'' @ rest))"
    by (rule leaks_sep) simp
  show ?thesis
    by (simp only: 1 4 2 3)
qed

lemma text_after_content_clean:
  assumes "\<not> leaks c" "\<not> leaks rest"
  shows "\<not> leaks (c @ ''\<newline>'' @ rest)"
  using assms leaks_sep [of "CHR ''\<newline>''" c rest] by simp

lemma emoji_clean:
  assumes "\<not> leaks em" "\<not> leaks rest"
  shows "\<not> leaks (em @ '' '' @ rest)"
  using assms leaks_sep [of "CHR '' ''" em rest] by simp

lemma default_cta_clean: "\<not> leaks ''Try @ app.vana.com''"
  by (simp add: leaks_def sublist_code)

lemma default_hashtag_clean: "\<not> leaks ''#DATAREVOLUTION''"
  by (simp add: leaks_def sublist_code)

lemma default_suffix_clean:
  "leaks (c @ ''\<newline>\<newline>Try @ app.vana.com\<newline>#datarevolution'') = leaks c"
  using leaks_sep [of "CHR ''\<newline>''" c "''\<newline>Try @ app.vana.com\<newline>#datarevolution''"]
  by (simp add: leaks_def sublist_code)

lemma decorated_clean:
  assumes "\<not> leaks (appName p)" "\<not> leaks (shareContent p)"
    and "supplied_clean (shareEmoji p)" "supplied_clean (funnyNote p)"
    and "supplied_clean (callToAction p)" "supplied_clean (hashtag p)"
  shows "\<not> leaks (generateShareText_decorated p pf)"
proof -
  define cta where "cta = with_default (callToAction p) ''Try @ app.vana.com''"
  define cta' where "cta' = (if pf = instagram \<or> pf = facebook
    then js_replace cta ''app.vana.com'' ''https://app.vana.com'' else cta)"
  define tag where "tag = with_default (hashtag p) ''#DATAREVOLUTION''"
  define em where "em = with_default (shareEmoji p) []"
  define nt where "nt = with_default (funnyNote p) []"
  have cta: "\<not> leaks cta"
    using assms(5) default_cta_clean
    by (simp add: cta_def with_default_def supplied_clean_def split: option.splits)
  have cta': "\<not> leaks cta'"
    using cta js_replace_clean by (simp add: cta'_def)
  have tag: "\<not> leaks tag"
    using assms(6) default_hashtag_clean
    by (simp add: tag_def with_default_def supplied_clean_def split: option.splits)
  have em: "\<not> leaks em"
    using assms(3) leaks_Nil
    by (simp add: em_def with_default_def supplied_clean_def split: option.splits)
  have nt: "\<not> leaks nt"
    using assms(4) leaks_Nil
    by (simp add: nt_def with_default_def supplied_clean_def split: option.splits)
  have t1: "\<not> leaks (cta' @ ''\<newline>'' @ tag)"
    using cta' tag by (rule text_after_content_clean)
  have t2: "\<not> leaks (''\<newline>'' @ cta' @ ''\<newline>'' @ tag)"
    using text_after_content_clean [OF leaks_Nil t1] by simp
  have t3: "\<not> leaks (nt @ ''\<newline>'' @ ''\<newline>'' @ cta' @ ''\<newline>'' @ tag)"
    using nt t2 by (rule text_after_content_clean)
  have t3': "\<not> leaks (''\<newline>'' @ nt @ ''\<newline>'' @ ''\<newline>'' @ cta' @ ''\<newline>'' @ tag)"
    using text_after_content_clean [OF leaks_Nil t3] by simp
  define tail where "tail = (if nt \<noteq> [] then ''\<newline>\<newline>'' @ nt else []) @ ''\<newline>\<newline>'' @ cta' @ ''\<newline>'' @ tag"
  have t4: "\<not> leaks (shareContent p @ tail)"
  proof (cases "nt = []")
    case True
    then show ?thesis
      using text_after_content_clean [OF assms(2) t2] by (simp add: tail_def)
  next
    case False
    then show ?thesis
      using text_after_content_clean [OF assms(2) t3'] by (simp add: tail_def)
  qed
  have t5: "\<not> leaks ((if em \<noteq> [] then em @ '' '' else []) @ shareContent p @ tail)"
    using emoji_clean [OF em t4] t4 by simp
  have "generateShareText_decorated p pf =
          ''Tried Vana's '' @ appName p @ '', look what I got:\<newline>\<newline>''
            @ ((if em \<noteq> [] then em @ '' '' else []) @ shareContent p @ tail)"
    using js_replace_after_newlines [of cta]
    by (simp add: generateShareText_decorated_def Let_def
          tail_def cta'_def cta_def tag_def em_def nt_def)
  then show ?thesis
    using assms(1) t5 by (simp only: intro_clean) simp
qed

section \<open>Origin check\<close>

text \<open>
  C1. A message whose origin differs from the configured iframe origin makes the handler
  return at once: no callback is invoked, nothing is posted to the iframe, nothing is
  logged, and the iframe ref (with its height style) is what it was, whatever the
  message carries.
\<close>

theorem foreign_origin_ignored:
  "origin ev \<noteq> iframe_origin p \<Longrightarrow> handleMessage p e r ev = Inr ([], r)"
  by (simp add: handleMessage_def)

theorem foreign_origin_ignored_witness:
  "origin \<lparr>origin = ''https://malicious.com'',
           data = JObj [(''type'', JStr ''auth''), (''walletAddress'', JStr ''malicious'')]\<rparr>
     \<noteq> iframe_origin mockProps
   \<and> handleMessage mockProps testEnv mountedIframe
       \<lparr>origin = ''https://malicious.com'',
        data = JObj [(''type'', JStr ''auth''), (''walletAddress'', JStr ''malicious'')]\<rparr>
     = Inr ([], mountedIframe)"
proof -
  have h: "origin \<lparr>origin = ''https://malicious.com'',
           data = JObj [(''type'', JStr ''auth''), (''walletAddress'', JStr ''malicious'')]\<rparr>
     \<noteq> iframe_origin mockProps"
    by (simp add: iframe_origin_def)
  show ?thesis
    using h foreign_origin_ignored [OF h, of testEnv mountedIframe] by simp
qed

section \<open>The ready handshake\<close>

text \<open>
  C2, as the code has it. A \<open>ready\<close> message from the configured origin posts the config
  message to the iframe exactly once when the iframe ref holds an element with a content
  window, and posts nothing when it does not (the guard
  \<open>iframeRef.current?.contentWindow\<close>). The message is
  \<open>{type: "config", appId, schemaId, aiPrompt, embeddingOrigin, theme}\<close>, built from the
  props and the host window's origin, and its target origin is the iframe origin. No
  callback is invoked and the iframe ref is unchanged.
\<close>

theorem ready_posts_config:
  assumes "tagged p ''ready'' ev"
  shows "handleMessage p e r ev =
           Inr (if has_content_window r
                then [PostMessage
                        (JObj [(''type'', JStr ''config''),
                               (''appId'', JStr (appId p)),
                               (''schemaId'',
                                  case schemaId p of None \<Rightarrow> JUndefined | Some n \<Rightarrow> JNum n),
                               (''aiPrompt'',
                                  case prompt p of None \<Rightarrow> JUndefined | Some s \<Rightarrow> JStr s),
                               (''embeddingOrigin'', JStr (location_origin e)),
                               (''theme'', theme_value (theme p))])
                        (iframe_origin p)]
                else [], r)"
  using assms
  by (simp add: handle_tagged dispatch_type_def config_message_def opt_num_def opt_str_def)

theorem ready_posts_config_witness:
  "tagged (mockProps\<lparr>schemaId := Some (SafeInt 123), prompt := Some ''Test prompt''\<rparr>) ''ready''
     (fromIframe [(''type'', JStr ''ready'')])
   \<and> handleMessage (mockProps\<lparr>schemaId := Some (SafeInt 123), prompt := Some ''Test prompt''\<rparr>) testEnv
       mountedIframe (fromIframe [(''type'', JStr ''ready'')])
     = Inr ([PostMessage
               (JObj [(''type'', JStr ''config''),
                      (''appId'', JStr ''test-app-123''),
                      (''schemaId'', JNum (SafeInt 123)),
                      (''aiPrompt'', JStr ''Test prompt''),
                      (''embeddingOrigin'', JStr ''http://localhost:3000''),
                      (''theme'', JUndefined)])
               ''https://app.vana.com''], mountedIframe)"
proof -
  have h: "tagged (mockProps\<lparr>schemaId := Some (SafeInt 123), prompt := Some ''Test prompt''\<rparr>) ''ready''
     (fromIframe [(''type'', JStr ''ready'')])"
    by (simp add: tagged_def iframe_origin_def get_prop_def)
  show ?thesis
    using h ready_posts_config [OF h, of testEnv mountedIframe]
    by (simp add: has_content_window_def iframe_origin_def theme_value_def)
qed

text \<open>
  The claim as stated (one config post for every \<open>ready\<close>, always) fails when the ref is
  null: the handler posts nothing.
\<close>

theorem ready_null_ref_counterexample:
  "handleMessage mockProps testEnv None (fromIframe [(''type'', JStr ''ready'')]) = Inr ([], None)
   \<and> handleMessage mockProps testEnv None (fromIframe [(''type'', JStr ''ready'')])
       \<noteq> Inr ([PostMessage (config_message mockProps testEnv) ''https://app.vana.com''], None)"
  by (simp add: handleMessage_def iframe_origin_def get_prop_def dispatch_type_def
        has_content_window_def)

section \<open>The error callback\<close>

text \<open>
  C3, as the code has it. An \<open>error\<close> message from the configured origin invokes the error
  callback exactly once and does nothing else. The argument is the \<open>message\<close> field when
  that is truthy, otherwise the \<open>error\<close> field when that is truthy, otherwise the string
  \<open>An error occurred\<close>. So \<open>{type: "error", message: "X"}\<close> with a non-empty \<open>X\<close> gives
  \<open>X\<close>, \<open>{type: "error", error: "Y"}\<close> with a non-empty \<open>Y\<close> gives \<open>Y\<close>, and
  \<open>{type: "error"}\<close> gives the fallback.
\<close>

theorem error_callback_value:
  assumes "tagged p ''error'' ev"
  shows "handleMessage p e r ev =
           Inr ([OnError
                   (if truthy (field ev ''message'') then field ev ''message''
                    else if truthy (field ev ''error'') then field ev ''error''
                    else JStr ''An error occurred'')], r)"
  using assms
  by (simp add: handle_tagged dispatch_type_def rest_field js_or_def)

theorem error_callback_value_witness:
  "tagged mockProps ''error''
     (fromIframe [(''type'', JStr ''error''), (''message'', JStr ''Something went wrong'')])
   \<and> handleMessage mockProps testEnv mountedIframe
       (fromIframe [(''type'', JStr ''error''), (''message'', JStr ''Something went wrong'')])
     = Inr ([OnError (JStr ''Something went wrong'')], mountedIframe)
   \<and> tagged mockProps ''error''
     (fromIframe [(''type'', JStr ''error''), (''error'', JStr ''Error from field'')])
   \<and> handleMessage mockProps testEnv mountedIframe
       (fromIframe [(''type'', JStr ''error''), (''error'', JStr ''Error from field'')])
     = Inr ([OnError (JStr ''Error from field'')], mountedIframe)
   \<and> tagged mockProps ''error'' (fromIframe [(''type'', JStr ''error'')])
   \<and> handleMessage mockProps testEnv mountedIframe (fromIframe [(''type'', JStr ''error'')])
     = Inr ([OnError (JStr ''An error occurred'')], mountedIframe)"
proof -
  have h1: "tagged mockProps ''error''
     (fromIframe [(''type'', JStr ''error''), (''message'', JStr ''Something went wrong'')])"
    by (simp add: tagged_def iframe_origin_def get_prop_def)
  have h2: "tagged mockProps ''error''
     (fromIframe [(''type'', JStr ''error''), (''error'', JStr ''Error from field'')])"
    by (simp add: tagged_def iframe_origin_def get_prop_def)
  have h3: "tagged mockProps ''error'' (fromIframe [(''type'', JStr ''error'')])"
    by (simp add: tagged_def iframe_origin_def get_prop_def)
  show ?thesis
    using h1 h2 h3
      error_callback_value [OF h1, of testEnv mountedIframe]
      error_callback_value [OF h2, of testEnv mountedIframe]
      error_callback_value [OF h3, of testEnv mountedIframe]
    by (simp add: field_def get_prop_def)
qed

text \<open>
  The claim as stated (the value of the \<open>message\<close> field when present) fails for a
  \<open>message\<close> that is present and empty: the callback gets the fallback, not the empty
  string.
\<close>

theorem empty_message_counterexample:
  "handleMessage mockProps testEnv mountedIframe
       (fromIframe [(''type'', JStr ''error''), (''message'', JStr [])])
     = Inr ([OnError (JStr ''An error occurred'')], mountedIframe)
   \<and> handleMessage mockProps testEnv mountedIframe
       (fromIframe [(''type'', JStr ''error''), (''message'', JStr [])])
     \<noteq> Inr ([OnError (JStr [])], mountedIframe)"
  by (simp add: handleMessage_def iframe_origin_def get_prop_def dispatch_type_def js_or_def)

section \<open>Suffix policy\<close>

text \<open>
  C4. In the suffix version the composed text is the content followed by the suffix,
  character for character: by the supplied suffix when there is one, by the default
  suffix when it is omitted. A click on the button of any platform writes exactly that
  text to the clipboard, so the text does not depend on the platform. The empty suffix
  gives the content unchanged, and \<open>Test content\<close> with the default suffix gives their
  concatenation.
\<close>

theorem suffix_text_is_concatenation:
  "generateShareText p
     = shareContent p
         @ (case suffix p of
              None \<Rightarrow> ''\<newline>\<newline>Try @ app.vana.com\<newline>#datarevolution''
            | Some s \<Rightarrow> s)
   \<and> written (fst (handleClick p st timer pf))
     = [shareContent p
         @ (case suffix p of
              None \<Rightarrow> ''\<newline>\<newline>Try @ app.vana.com\<newline>#datarevolution''
            | Some s \<Rightarrow> s)]
   \<and> generateShareText (p\<lparr>suffix := Some []\<rparr>) = shareContent p
   \<and> generateShareText minimalProps
       = ''Test content\<newline>\<newline>Try @ app.vana.com\<newline>#datarevolution''"
  by (simp add: generateShareText_def with_default_def handleClick_def
        written_copyAndShowInstructions)

theorem suffix_text_is_concatenation_witness:
  "written (fst (handleClick (minimalProps\<lparr>suffix := Some ''!''\<rparr>) idle 1 instagram))
     = [''Test content!'']
   \<and> written (fst (handleClick (minimalProps\<lparr>suffix := Some ''!''\<rparr>) idle 1 twitter))
     = [''Test content!'']
   \<and> written (fst (handleClick minimalProps idle 1 linkedin))
     = [''Test content\<newline>\<newline>Try @ app.vana.com\<newline>#datarevolution'']"
  using suffix_text_is_concatenation [where p = "minimalProps\<lparr>suffix := Some ''!''\<rparr>"
      and st = idle and timer = 1 and pf = instagram]
    suffix_text_is_concatenation [where p = "minimalProps\<lparr>suffix := Some ''!''\<rparr>"
      and st = idle and timer = 1 and pf = twitter]
    suffix_text_is_concatenation [where p = minimalProps
      and st = idle and timer = 1 and pf = linkedin]
  by simp

section \<open>Resize\<close>




section \<open>No state between messages\<close>

text \<open>
  C6. The handler keeps nothing from one message to the next. When a sequence of events
  is delivered, the actions performed are, event by event, the actions the handler
  performs on that event alone with the same props, surroundings and mounted iframe:
  nothing an earlier message did changes what a later one does. In particular the result
  callback is invoked once for every \<open>complete\<close> message from the configured origin that
  carries a truthy result, in order and with that result, however many came before; and
  the error callback is invoked once for every \<open>error\<close> message from the configured
  origin.
\<close>

theorem no_state_between_messages:
  "fst (deliver p e r evs) = concat (map (actions_of p e r) evs)
   \<and> filter is_OnResult (fst (deliver p e r evs))
       = map (\<lambda>ev. OnResult (field ev ''result''))
           (filter (\<lambda>ev. tagged p ''complete'' ev \<and> truthy (field ev ''result'')) evs)
   \<and> length (filter is_OnError (fst (deliver p e r evs)))
       = length (filter (tagged p ''error'') evs)"
proof -
  have a: "fst (deliver p e r evs) = concat (map (actions_of p e r) evs)"
    by (rule deliver_actions) simp
  have b: "filter is_OnResult (concat (map (actions_of p e r) evs))
       = map (\<lambda>ev. OnResult (field ev ''result''))
           (filter (\<lambda>ev. tagged p ''complete'' ev \<and> truthy (field ev ''result'')) evs)"
    by (induction evs) (simp_all add: results_of_one)
  have c: "length (filter is_OnError (concat (map (actions_of p e r) evs)))
       = length (filter (tagged p ''error'') evs)"
    by (induction evs) (simp_all add: errors_of_one)
  show ?thesis using a b c by simp
qed

theorem no_state_between_messages_witness:
  "filter is_OnResult
     (fst (deliver mockProps testEnv mountedIframe
        [fromIframe [(''type'', JStr ''complete''), (''result'', JStr ''success-data'')],
         fromIframe [(''type'', JStr ''error''), (''message'', JStr ''Something went wrong'')],
         fromIframe [(''type'', JStr ''complete''), (''result'', JStr ''analysis results'')],
         fromIframe [(''type'', JStr ''error'')]]))
     = [OnResult (JStr ''success-data''), OnResult (JStr ''analysis results'')]
   \<and> length (filter is_OnError
     (fst (deliver mockProps testEnv mountedIframe
        [fromIframe [(''type'', JStr ''complete''), (''result'', JStr ''success-data'')],
         fromIframe [(''type'', JStr ''error''), (''message'', JStr ''Something went wrong'')],
         fromIframe [(''type'', JStr ''complete''), (''result'', JStr ''analysis results'')],
         fromIframe [(''type'', JStr ''error'')]]))) = 2"
proof -
  let ?evs =
       "[fromIframe [(''type'', JStr ''complete''), (''result'', JStr ''success-data'')],
         fromIframe [(''type'', JStr ''error''), (''message'', JStr ''Something went wrong'')],
         fromIframe [(''type'', JStr ''complete''), (''result'', JStr ''analysis results'')],
         fromIframe [(''type'', JStr ''error'')]]"
  have t: "filter is_OnResult (fst (deliver mockProps testEnv mountedIframe ?evs))
             = map (\<lambda>ev. OnResult (field ev ''result''))
                 (filter (\<lambda>ev. tagged mockProps ''complete'' ev \<and> truthy (field ev ''result''))
                    ?evs)
           \<and> length (filter is_OnError (fst (deliver mockProps testEnv mountedIframe ?evs)))
             = length (filter (tagged mockProps ''error'') ?evs)"
    using no_state_between_messages [of mockProps testEnv mountedIframe ?evs] by blast
  have f1: "map (\<lambda>ev. OnResult (field ev ''result''))
              (filter (\<lambda>ev. tagged mockProps ''complete'' ev \<and> truthy (field ev ''result''))
                 ?evs)
            = [OnResult (JStr ''success-data''), OnResult (JStr ''analysis results'')]"
    by (simp add: tagged_def field_def iframe_origin_def get_prop_def)
  have f2: "length (filter (tagged mockProps ''error'') ?evs) = 2"
    by (simp add: tagged_def iframe_origin_def get_prop_def)
  show ?thesis
    using t unfolding f1 f2 by blast
qed

section \<open>Decorated policy\<close>

text \<open>
  C7. The decorated policy composes intro, emoji, content, note, call to action and
  hashtag, and means instagram and facebook, whose share surface does not linkify a bare
  domain, to get the call to action with the full URL (the source: "Instagram and
  Facebook need the full URL in the text"), twitter and linkedin to get it as given. The
  code rewrites with \<open>String.replace\<close> on the text \<open>app.vana.com\<close>, bare or not. So a call
  to action that already holds the full URL does not keep it: on instagram and facebook
  the scheme comes out twice, which is no URL, while twitter and linkedin copy the call to
  action as given.
\<close>

theorem full_url_call_to_action_doubled:
  "generateShareText_decorated
     (sampleProps\<lparr>callToAction := Some ''Visit https://app.vana.com''\<rparr>) instagram
     = ''Tried Vana's Ice Cream Flavor, look what I got:\<newline>\<newline>ChocoVision Leader (Dark Chocolate)\<newline>\<newline>Visit https://https://app.vana.com\<newline>#DATAREVOLUTION''
   \<and> generateShareText_decorated
     (sampleProps\<lparr>callToAction := Some ''Visit https://app.vana.com''\<rparr>) facebook
     = ''Tried Vana's Ice Cream Flavor, look what I got:\<newline>\<newline>ChocoVision Leader (Dark Chocolate)\<newline>\<newline>Visit https://https://app.vana.com\<newline>#DATAREVOLUTION''
   \<and> generateShareText_decorated
     (sampleProps\<lparr>callToAction := Some ''Visit https://app.vana.com''\<rparr>) twitter
     = ''Tried Vana's Ice Cream Flavor, look what I got:\<newline>\<newline>ChocoVision Leader (Dark Chocolate)\<newline>\<newline>Visit https://app.vana.com\<newline>#DATAREVOLUTION''"
  by (simp add: generateShareText_decorated_def with_default_def js_replace_def)

section \<open>Clipboard\<close>

text \<open>
  C8. A click on a share button writes to the clipboard exactly once, and what it writes
  is the composed text, in both versions. An omitted optional prop contributes its default
  literal and never the words \<open>undefined\<close> or \<open>null\<close>: in the decorated version, when the
  app name, the content and each optional prop that is supplied contain neither word, the
  composed text contains neither, whichever optional props are omitted and whatever the
  platform; in the suffix version, with the suffix omitted, the composed text contains
  neither word when the content contains neither.
\<close>

theorem one_write_and_no_leak:
  "written (fst (handleClick_decorated enc here p st timer pf))
     = [generateShareText_decorated p pf]
   \<and> written (fst (handleClick q st timer pf)) = [generateShareText q]
   \<and> (\<not> leaks (appName p) \<and> \<not> leaks (shareContent p)
        \<and> supplied_clean (shareEmoji p) \<and> supplied_clean (funnyNote p)
        \<and> supplied_clean (callToAction p) \<and> supplied_clean (hashtag p)
      \<longrightarrow> \<not> leaks (generateShareText_decorated p pf))
   \<and> (suffix q = None \<and> \<not> leaks (shareContent q) \<longrightarrow> \<not> leaks (generateShareText q))"
proof -
  have a: "written (fst (handleClick_decorated enc here p st timer pf))
             = [generateShareText_decorated p pf]"
    by (simp add: handleClick_decorated_def Let_def written_copyAndOpenWithCountdown)
  have b: "written (fst (handleClick q st timer pf)) = [generateShareText q]"
    by (simp add: handleClick_def written_copyAndShowInstructions)
  have c: "suffix q = None \<and> \<not> leaks (shareContent q) \<longrightarrow> \<not> leaks (generateShareText q)"
    by (simp add: generateShareText_def with_default_def default_suffix_clean)
  show ?thesis
    using a b c decorated_clean [of p pf] by blast
qed

theorem one_write_and_no_leak_witness:
  "written (fst (handleClick_decorated (\<lambda>t. t) ''http://localhost:3000'' sampleProps idle 1
                  twitter))
     = [''Tried Vana's Ice Cream Flavor, look what I got:\<newline>\<newline>ChocoVision Leader (Dark Chocolate)\<newline>\<newline>Try @ app.vana.com\<newline>#DATAREVOLUTION'']
   \<and> written (fst (handleClick minimalProps idle 1 twitter))
     = [''Test content\<newline>\<newline>Try @ app.vana.com\<newline>#datarevolution'']
   \<and> \<not> leaks (appName sampleProps) \<and> \<not> leaks (shareContent sampleProps)
   \<and> supplied_clean (shareEmoji sampleProps) \<and> supplied_clean (funnyNote sampleProps)
   \<and> supplied_clean (callToAction sampleProps) \<and> supplied_clean (hashtag sampleProps)
   \<and> \<not> leaks (generateShareText_decorated sampleProps twitter)
   \<and> suffix minimalProps = None \<and> \<not> leaks (shareContent minimalProps)
   \<and> \<not> leaks (generateShareText minimalProps)"
proof -
  have h: "\<not> leaks (appName sampleProps) \<and> \<not> leaks (shareContent sampleProps)
        \<and> supplied_clean (shareEmoji sampleProps) \<and> supplied_clean (funnyNote sampleProps)
        \<and> supplied_clean (callToAction sampleProps) \<and> supplied_clean (hashtag sampleProps)"
    by (simp add: leaks_def supplied_clean_def sublist_code)
  have k: "suffix minimalProps = None \<and> \<not> leaks (shareContent minimalProps)"
    by (simp add: leaks_def sublist_code)
  have t1: "generateShareText_decorated sampleProps twitter
     = ''Tried Vana's Ice Cream Flavor, look what I got:\<newline>\<newline>ChocoVision Leader (Dark Chocolate)\<newline>\<newline>Try @ app.vana.com\<newline>#DATAREVOLUTION''"
    by (simp add: generateShareText_decorated_def with_default_def)
  have t2: "generateShareText minimalProps
     = ''Test content\<newline>\<newline>Try @ app.vana.com\<newline>#datarevolution''"
    by (simp add: generateShareText_def with_default_def)
  show ?thesis
    using h k
      one_write_and_no_leak [of "\<lambda>t. t" "''http://localhost:3000''" sampleProps idle 1
        twitter minimalProps]
    unfolding t1 t2 by blast
qed

section \<open>Falsy payloads\<close>

text \<open>
  C9, as the code has it. An \<open>error\<close> message from the configured origin whose \<open>message\<close>
  field is the empty string never has the empty string surfaced: the error callback gets
  the \<open>error\<close> field when that is truthy, and \<open>An error occurred\<close> otherwise. Likewise
  when \<open>message\<close> is absent and \<open>error\<close> is the empty string the callback gets the
  fallback; in general it gets the fallback whenever neither field is truthy. The fields
  are combined with \<open>||\<close>, which skips every falsy value.
\<close>

theorem empty_error_text_falls_back:
  assumes "tagged p ''error'' ev"
  shows "(field ev ''message'' = JStr [] \<longrightarrow>
            handleMessage p e r ev
              = Inr ([OnError (if truthy (field ev ''error'') then field ev ''error''
                               else JStr ''An error occurred'')], r)
            \<and> handleMessage p e r ev \<noteq> Inr ([OnError (JStr [])], r))
         \<and> (field ev ''message'' = JUndefined \<and> field ev ''error'' = JStr [] \<longrightarrow>
            handleMessage p e r ev = Inr ([OnError (JStr ''An error occurred'')], r))
         \<and> (\<not> truthy (field ev ''message'') \<and> \<not> truthy (field ev ''error'') \<longrightarrow>
            handleMessage p e r ev = Inr ([OnError (JStr ''An error occurred'')], r))"
  using assms
  by (auto simp add: handle_tagged dispatch_type_def rest_field js_or_def)

theorem empty_error_text_falls_back_witness:
  "tagged mockProps ''error'' (fromIframe [(''type'', JStr ''error''), (''message'', JStr [])])
   \<and> field (fromIframe [(''type'', JStr ''error''), (''message'', JStr [])]) ''message''
       = JStr []
   \<and> handleMessage mockProps testEnv mountedIframe
        (fromIframe [(''type'', JStr ''error''), (''message'', JStr [])])
      = Inr ([OnError (JStr ''An error occurred'')], mountedIframe)
   \<and> tagged mockProps ''error''
        (fromIframe [(''type'', JStr ''error''), (''message'', JStr []), (''error'', JStr ''Y'')])
   \<and> field (fromIframe [(''type'', JStr ''error''), (''message'', JStr []),
                          (''error'', JStr ''Y'')]) ''message'' = JStr []
   \<and> handleMessage mockProps testEnv mountedIframe
        (fromIframe [(''type'', JStr ''error''), (''message'', JStr []), (''error'', JStr ''Y'')])
      = Inr ([OnError (JStr ''Y'')], mountedIframe)
   \<and> tagged mockProps ''error'' (fromIframe [(''type'', JStr ''error''), (''error'', JStr [])])
   \<and> field (fromIframe [(''type'', JStr ''error''), (''error'', JStr [])]) ''message''
       = JUndefined
   \<and> field (fromIframe [(''type'', JStr ''error''), (''error'', JStr [])]) ''error'' = JStr []
   \<and> handleMessage mockProps testEnv mountedIframe
        (fromIframe [(''type'', JStr ''error''), (''error'', JStr [])])
      = Inr ([OnError (JStr ''An error occurred'')], mountedIframe)
   \<and> tagged mockProps ''error''
        (fromIframe [(''type'', JStr ''error''), (''message'', JStr []), (''error'', JStr [])])
   \<and> \<not> truthy (field (fromIframe [(''type'', JStr ''error''), (''message'', JStr []),
                                    (''error'', JStr [])]) ''message'')
   \<and> \<not> truthy (field (fromIframe [(''type'', JStr ''error''), (''message'', JStr []),
                                    (''error'', JStr [])]) ''error'')
   \<and> handleMessage mockProps testEnv mountedIframe
        (fromIframe [(''type'', JStr ''error''), (''message'', JStr []), (''error'', JStr [])])
      = Inr ([OnError (JStr ''An error occurred'')], mountedIframe)"
proof -
  have h1: "tagged mockProps ''error''
              (fromIframe [(''type'', JStr ''error''), (''message'', JStr [])])"
    by (simp add: tagged_def iframe_origin_def get_prop_def)
  have h2: "tagged mockProps ''error''
              (fromIframe [(''type'', JStr ''error''), (''message'', JStr []),
                           (''error'', JStr ''Y'')])"
    by (simp add: tagged_def iframe_origin_def get_prop_def)
  have h3: "tagged mockProps ''error''
              (fromIframe [(''type'', JStr ''error''), (''error'', JStr [])])"
    by (simp add: tagged_def iframe_origin_def get_prop_def)
  have h4: "tagged mockProps ''error''
              (fromIframe [(''type'', JStr ''error''), (''message'', JStr []),
                           (''error'', JStr [])])"
    by (simp add: tagged_def iframe_origin_def get_prop_def)
  show ?thesis
    using h1 h2 h3 h4
      empty_error_text_falls_back [OF h1, of testEnv mountedIframe]
      empty_error_text_falls_back [OF h2, of testEnv mountedIframe]
      empty_error_text_falls_back [OF h3, of testEnv mountedIframe]
      empty_error_text_falls_back [OF h4, of testEnv mountedIframe]
    by (simp add: field_def get_prop_def)
qed

text \<open>
  The claim as stated (an empty \<open>message\<close> gives the fallback) fails when the message
  also carries a truthy \<open>error\<close> field: the callback gets that field, not the fallback.
\<close>

theorem empty_message_with_error_counterexample:
  "handleMessage mockProps testEnv mountedIframe
       (fromIframe [(''type'', JStr ''error''), (''message'', JStr []), (''error'', JStr ''Y'')])
     = Inr ([OnError (JStr ''Y'')], mountedIframe)
   \<and> handleMessage mockProps testEnv mountedIframe
       (fromIframe [(''type'', JStr ''error''), (''message'', JStr []), (''error'', JStr ''Y'')])
     \<noteq> Inr ([OnError (JStr ''An error occurred'')], mountedIframe)"
  by (simp add: handleMessage_def iframe_origin_def get_prop_def dispatch_type_def js_or_def)

text \<open>
  C10. For a message from the configured origin, a payload field that is there but falsy
  counts as missing: a \<open>complete\<close> message whose result is falsy (the empty string, say)
  invokes no callback, an \<open>auth\<close> message whose wallet address is falsy invokes no
  callback, and a \<open>resize\<close> message whose height is falsy (0, say) leaves the iframe
  height as it was. In each case the handler does nothing at all.
\<close>

theorem falsy_payload_ignored:
  "(tagged p ''complete'' ev \<and> \<not> truthy (field ev ''result'') \<longrightarrow>
      handleMessage p e r ev = Inr ([], r))
   \<and> (tagged p ''auth'' ev \<and> \<not> truthy (field ev ''walletAddress'') \<longrightarrow>
      handleMessage p e r ev = Inr ([], r))
   \<and> (tagged p ''resize'' ev \<and> \<not> truthy (field ev ''height'') \<longrightarrow>
      handleMessage p e r ev = Inr ([], r))"
  by (cases r) (auto simp add: handle_tagged dispatch_type_def rest_field)

theorem falsy_payload_ignored_witness:
  "tagged mockProps ''complete''
     (fromIframe [(''type'', JStr ''complete''), (''result'', JStr [])])
   \<and> \<not> truthy (field (fromIframe [(''type'', JStr ''complete''), (''result'', JStr [])])
                  ''result'')
   \<and> handleMessage mockProps testEnv mountedIframe
        (fromIframe [(''type'', JStr ''complete''), (''result'', JStr [])])
      = Inr ([], mountedIframe)
   \<and> tagged mockProps ''auth''
     (fromIframe [(''type'', JStr ''auth''), (''walletAddress'', JStr [])])
   \<and> \<not> truthy (field (fromIframe [(''type'', JStr ''auth''), (''walletAddress'', JStr [])])
                  ''walletAddress'')
   \<and> handleMessage mockProps testEnv mountedIframe
        (fromIframe [(''type'', JStr ''auth''), (''walletAddress'', JStr [])])
      = Inr ([], mountedIframe)
   \<and> tagged mockProps ''resize''
     (fromIframe [(''type'', JStr ''resize''), (''height'', JNum (SafeInt 0))])
   \<and> \<not> truthy (field (fromIframe [(''type'', JStr ''resize''), (''height'', JNum (SafeInt 0))])
                  ''height'')
   \<and> handleMessage mockProps testEnv mountedIframe
        (fromIframe [(''type'', JStr ''resize''), (''height'', JNum (SafeInt 0))])
      = Inr ([], mountedIframe)"
proof -
  have h1: "tagged mockProps ''complete''
       (fromIframe [(''type'', JStr ''complete''), (''result'', JStr [])])
     \<and> \<not> truthy (field (fromIframe [(''type'', JStr ''complete''), (''result'', JStr [])])
                  ''result'')"
    by (simp add: tagged_def iframe_origin_def get_prop_def field_def)
  have h2: "tagged mockProps ''auth''
       (fromIframe [(''type'', JStr ''auth''), (''walletAddress'', JStr [])])
     \<and> \<not> truthy (field (fromIframe [(''type'', JStr ''auth''), (''walletAddress'', JStr [])])
                  ''walletAddress'')"
    by (simp add: tagged_def iframe_origin_def get_prop_def field_def)
  have h3: "tagged mockProps ''resize''
       (fromIframe [(''type'', JStr ''resize''), (''height'', JNum (SafeInt 0))])
     \<and> \<not> truthy (field (fromIframe [(''type'', JStr ''resize''), (''height'', JNum (SafeInt 0))])
                  ''height'')"
    by (simp add: tagged_def iframe_origin_def get_prop_def field_def int_of_SafeInt
          safe_integer_def)
  show ?thesis
    using h1 h2 h3
      falsy_payload_ignored [of mockProps
        "fromIframe [(''type'', JStr ''complete''), (''result'', JStr [])]" testEnv mountedIframe]
      falsy_payload_ignored [of mockProps
        "fromIframe [(''type'', JStr ''auth''), (''walletAddress'', JStr [])]" testEnv
        mountedIframe]
      falsy_payload_ignored [of mockProps
        "fromIframe [(''type'', JStr ''resize''), (''height'', JNum (SafeInt 0))]" testEnv mountedIframe]
    by blast
qed

end
